theory Spec2Isabelle
  imports Complex_Main "HOL-Library.Word"
begin

section \<open>Python values used by joy.py\<close>

text \<open>
  The exceptions that the controller's code can meet at run time. \<open>IndexError\<close> comes from
  \<open>deque.pop()\<close> on an empty deque, from indexing a tuple out of range and from scapy's
  \<open>pkt[Raw]\<close> when the packet has no such layer; \<open>KeyError\<close> from a dict lookup;
  \<open>TypeError\<close> from subscripting \<open>None\<close> and from calling a method with the wrong
  number of arguments; \<open>UnicodeDecodeError\<close> from \<open>bytes.decode()\<close>.
\<close>

datatype exc = IndexError | KeyError | TypeError | UnicodeDecodeError

subsection \<open>collections.deque\<close>

text \<open>
  A deque is the list of its elements from the left end to the right end.
  \<open>append\<close> adds at the right end, \<open>pop\<close> removes from the right end and raises
  \<open>IndexError\<close> on an empty deque, \<open>clear\<close> removes everything.
\<close>

type_synonym 'a deque = "'a list"

definition deque_append :: "'a deque \<Rightarrow> 'a \<Rightarrow> 'a deque" where
  "deque_append q x = q @ [x]"

definition deque_pop :: "'a deque \<Rightarrow> exc + ('a \<times> 'a deque)" where
  "deque_pop q = (if q = [] then Inl IndexError else Inr (last q, butlast q))"

definition deque_clear :: "'a deque \<Rightarrow> 'a deque" where
  "deque_clear q = []"

subsection \<open>Tuples and the str of an int\<close>

text \<open>Indexing a tuple with a non-negative index: \<open>IndexError\<close> past the end.\<close>

definition tuple_get :: "'a list \<Rightarrow> nat \<Rightarrow> exc + 'a" where
  "tuple_get xs i = (if i < length xs then Inr (xs ! i) else Inl IndexError)"

definition digit_char :: "nat \<Rightarrow> char" where
  "digit_char d = ''0123456789'' ! d"

fun str_nat :: "nat \<Rightarrow> string" where
  "str_nat n = (if n < 10 then [digit_char n] else str_nat (n div 10) @ [digit_char (n mod 10)])"

declare str_nat.simps [simp del]

text \<open>What an f-string writes for an int: decimal digits, a leading minus when negative.\<close>

definition str_int :: "int \<Rightarrow> string" where
  "str_int i = (if i < 0 then CHR ''-'' # str_nat (nat (- i)) else str_nat (nat i))"

subsection \<open>int(a / b)\<close>

text \<open>
  \<open>int(a / b)\<close> on Python ints is a float division followed by truncation towards zero.
  The divisor in joy.py is the constant 32767 and the dividend is 100 times a signed 16-bit
  joystick reading. In that range the exact quotient is either an integer or at least
  1/32767 away from every integer, far more than the rounding error of a double near 100,
  so the float quotient truncates to the same integer as the exact one. The model is the
  truncation of the exact quotient.
\<close>

definition int_truediv :: "int \<Rightarrow> int \<Rightarrow> int" where
  "int_truediv a b =
     (if (a < 0) = (b < 0) then \<bar>a\<bar> div \<bar>b\<bar> else - (\<bar>a\<bar> div \<bar>b\<bar>))"

subsection \<open>bytes.decode()\<close>

text \<open>
  A byte string is a list of 8-bit characters. \<open>bytes.decode()\<close> decodes strict UTF-8: it
  returns the text when the bytes are well-formed UTF-8 and raises \<open>UnicodeDecodeError\<close>
  otherwise. A Python str is represented here by its UTF-8 bytes, so a successful decode
  returns its argument.
\<close>

type_synonym bytes = "char list"

definition cont_byte :: "nat \<Rightarrow> bool" where
  "cont_byte b = (128 \<le> b \<and> b \<le> 191)"

fun utf8_valid :: "nat list \<Rightarrow> bool" where
  "utf8_valid [] = True"
| "utf8_valid (b0 # bs) =
     (if b0 < 128 then utf8_valid bs
      else if 194 \<le> b0 \<and> b0 \<le> 223 then
        (case bs of b1 # r \<Rightarrow> cont_byte b1 \<and> utf8_valid r | _ \<Rightarrow> False)
      else if 224 \<le> b0 \<and> b0 \<le> 239 then
        (case bs of
           b1 # b2 # r \<Rightarrow>
             (if b0 = 224 then 160 \<le> b1 \<and> b1 \<le> 191
              else if b0 = 237 then 128 \<le> b1 \<and> b1 \<le> 159
              else cont_byte b1)
             \<and> cont_byte b2 \<and> utf8_valid r
         | _ \<Rightarrow> False)
      else if 240 \<le> b0 \<and> b0 \<le> 244 then
        (case bs of
           b1 # b2 # b3 # r \<Rightarrow>
             (if b0 = 240 then 144 \<le> b1 \<and> b1 \<le> 191
              else if b0 = 244 then 128 \<le> b1 \<and> b1 \<le> 143
              else cont_byte b1)
             \<and> cont_byte b2 \<and> cont_byte b3 \<and> utf8_valid r
         | _ \<Rightarrow> False)
      else False)"

definition bytes_decode :: "bytes \<Rightarrow> exc + string" where
  "bytes_decode b =
     (if utf8_valid (map of_char b) then Inr b else Inl UnicodeDecodeError)"

section \<open>The controller's state\<close>

text \<open>
  \<open>_axis_state\<close> is a dict with the four fixed keys \<open>'roll'\<close>, \<open>'quota'\<close>, \<open>'yaw'\<close> and
  \<open>'pitch'\<close>; no key is ever added or removed, so it is a record of four ints.
\<close>

record axis_state =
  roll :: int
  quota :: int
  yaw :: int
  pitch :: int

text \<open>
  What the program does to the outside, in the order it does it: a line printed, a command
  handed to \<open>sendrecv.sr1\<close> for 192.168.10.1, UDP port 8889, and a \<open>time.sleep\<close> (in
  milliseconds).
\<close>

datatype effect = Print string | Sent string | Sleep nat

record controller =
  running :: bool
  command_queue :: "string deque"
  axis_state :: axis_state
  trace :: "effect list"

definition AXIS_DEAD :: int where
  "AXIS_DEAD = 2500"

definition AXIS_MAX_VAL :: int where
  "AXIS_MAX_VAL = 32767"

definition button_map :: "string list" where
  "button_map = [''A'', ''B'', ''X'', ''Y'', ''LB'', ''RB'', ''SELECT'', ''START'', ''JL'', ''JR'']"

definition axis_map :: "string list" where
  "axis_map = [''LEFT_X'', ''LEFT_Y'', ''LT'', ''RIGHT_X'', ''RIGHT_Y'', ''RT'']"

text \<open>The state \<open>__init__\<close> builds.\<close>

definition init :: controller where
  "init = \<lparr>running = True, command_queue = [],
           axis_state = \<lparr>roll = 0, quota = 0, yaw = 0, pitch = 0\<rparr>, trace = []\<rparr>"

definition py_print :: "string \<Rightarrow> controller \<Rightarrow> controller" where
  "py_print line s = s\<lparr>trace := trace s @ [Print line]\<rparr>"

definition time_sleep :: "nat \<Rightarrow> controller \<Rightarrow> controller" where
  "time_sleep ms s = s\<lparr>trace := trace s @ [Sleep ms]\<rparr>"

section \<open>The actions\<close>

definition command :: "controller \<Rightarrow> controller" where
  "command s =
     (let s1 = py_print ''Pressed Command button'' s
      in s1\<lparr>command_queue := deque_append (command_queue s1) ''command''\<rparr>)"

definition land :: "bool \<Rightarrow> controller \<Rightarrow> controller" where
  "land force s =
     (let s1 = py_print ''Pressed Land button'' s;
          s2 = (if force then s1\<lparr>command_queue := deque_clear (command_queue s1)\<rparr> else s1)
      in s2\<lparr>command_queue := deque_append (command_queue s2) ''land''\<rparr>)"

definition emergency_land :: "controller \<Rightarrow> controller" where
  "emergency_land s =
     (let s1 = s\<lparr>command_queue := deque_clear (command_queue s)\<rparr>
      in s1\<lparr>command_queue := deque_append (command_queue s1) ''emergency''\<rparr>)"

definition takeoff :: "controller \<Rightarrow> controller" where
  "takeoff s =
     (let s1 = py_print ''Pressed Takeoff button'' s
      in s1\<lparr>command_queue := deque_append (command_queue s1) ''takeoff''\<rparr>)"

definition dispatch_axis_update :: "controller \<Rightarrow> controller" where
  "dispatch_axis_update s =
     s\<lparr>command_queue := deque_append (command_queue s)
          (''rc '' @ str_int (roll (axis_state s)) @ '' ''
             @ str_int (pitch (axis_state s)) @ '' ''
             @ str_int (quota (axis_state s)) @ '' ''
             @ str_int (yaw (axis_state s)))\<rparr>"

definition set_roll :: "int \<Rightarrow> controller \<Rightarrow> controller" where
  "set_roll raw_val s =
     (let val = int_truediv (raw_val * 100) AXIS_MAX_VAL
      in if roll (axis_state s) \<noteq> val
         then dispatch_axis_update (s\<lparr>axis_state := (axis_state s)\<lparr>roll := val\<rparr>\<rparr>)
         else s)"

definition set_quota :: "int \<Rightarrow> controller \<Rightarrow> controller" where
  "set_quota raw_val s =
     (let val = - int_truediv (raw_val * 100) AXIS_MAX_VAL
      in if quota (axis_state s) \<noteq> val
         then dispatch_axis_update (s\<lparr>axis_state := (axis_state s)\<lparr>quota := val\<rparr>\<rparr>)
         else s)"

definition set_yaw :: "int \<Rightarrow> controller \<Rightarrow> controller" where
  "set_yaw raw_val s =
     (let val = int_truediv (raw_val * 100) AXIS_MAX_VAL
      in if yaw (axis_state s) \<noteq> val
         then dispatch_axis_update (s\<lparr>axis_state := (axis_state s)\<lparr>yaw := val\<rparr>\<rparr>)
         else s)"

definition set_pitch :: "int \<Rightarrow> controller \<Rightarrow> controller" where
  "set_pitch raw_val s =
     (let val = - int_truediv (raw_val * 100) AXIS_MAX_VAL
      in if pitch (axis_state s) \<noteq> val
         then dispatch_axis_update (s\<lparr>axis_state := (axis_state s)\<lparr>pitch := val\<rparr>\<rparr>)
         else s)"

section \<open>The receiving loop\<close>

text \<open>
  \<open>_event_map\<close> maps a control's name to a bound method; a name that is not a key raises
  \<open>KeyError\<close>.
\<close>

datatype handler =
  H_land | H_takeoff | H_emergency_land | H_command
  | H_set_roll | H_set_pitch | H_set_yaw | H_set_quota

definition event_map :: "string \<Rightarrow> exc + handler" where
  "event_map k =
     (if k = ''SELECT'' then Inr H_land
      else if k = ''START'' then Inr H_takeoff
      else if k = ''A'' then Inr H_emergency_land
      else if k = ''Y'' then Inr H_command
      else if k = ''LEFT_X'' then Inr H_set_roll
      else if k = ''LEFT_Y'' then Inr H_set_pitch
      else if k = ''RIGHT_X'' then Inr H_set_yaw
      else if k = ''RIGHT_Y'' then Inr H_set_quota
      else Inl KeyError)"

text \<open>
  A call with no argument and a call with one argument. A method called with the wrong
  number of arguments raises \<open>TypeError\<close> before its body runs; \<open>_land\<close> takes its optional
  \<open>force\<close>, which an int sets when it is not zero.
\<close>

definition call0 :: "handler \<Rightarrow> controller \<Rightarrow> exc + controller" where
  "call0 h s =
     (case h of
        H_land \<Rightarrow> Inr (land False s)
      | H_takeoff \<Rightarrow> Inr (takeoff s)
      | H_emergency_land \<Rightarrow> Inr (emergency_land s)
      | H_command \<Rightarrow> Inr (command s)
      | _ \<Rightarrow> Inl TypeError)"

definition call1 :: "handler \<Rightarrow> int \<Rightarrow> controller \<Rightarrow> exc + controller" where
  "call1 h v s =
     (case h of
        H_set_roll \<Rightarrow> Inr (set_roll v s)
      | H_set_pitch \<Rightarrow> Inr (set_pitch v s)
      | H_set_yaw \<Rightarrow> Inr (set_yaw v s)
      | H_set_quota \<Rightarrow> Inr (set_quota v s)
      | H_land \<Rightarrow> Inr (land (v \<noteq> 0) s)
      | _ \<Rightarrow> Inl TypeError)"

text \<open>
  An SDL event as the loop reads it: the button index and the axis index are \<open>Uint8\<close>, the
  axis value is \<open>Sint16\<close>. Every other event type is \<open>OTHER_EVENT\<close>.
\<close>

datatype event =
  JOYBUTTONDOWN "8 word"
  | JOYAXISMOTION "8 word" "16 word"
  | OTHER_EVENT

definition try_bind :: "exc + 'a \<Rightarrow> ('a \<Rightarrow> exc + 'b) \<Rightarrow> exc + 'b" where
  "try_bind r f = (case r of Inl e \<Rightarrow> Inl e | Inr x \<Rightarrow> f x)"

text \<open>The body of the \<open>try\<close> in \<open>_receive_command_loop\<close>.\<close>

definition dispatch_event :: "event \<Rightarrow> controller \<Rightarrow> exc + controller" where
  "dispatch_event ev s =
     (case ev of
        JOYBUTTONDOWN b \<Rightarrow>
          try_bind (tuple_get button_map (unat b)) (\<lambda>name.
          try_bind (event_map name) (\<lambda>h. call0 h s))
      | JOYAXISMOTION a v \<Rightarrow>
          if \<bar>sint v\<bar> > AXIS_DEAD then
            try_bind (tuple_get axis_map (unat a)) (\<lambda>name.
            try_bind (event_map name) (\<lambda>h. call1 h (sint v) s))
          else Inr s
      | OTHER_EVENT \<Rightarrow> Inr s)"

text \<open>The \<open>try\<close> with its handler: \<open>except KeyError: pass\<close>.\<close>

definition handle_event :: "event \<Rightarrow> controller \<Rightarrow> exc + controller" where
  "handle_event ev s =
     (case dispatch_event ev s of
        Inl e \<Rightarrow> if e = KeyError then Inr s else Inl e
      | Inr s' \<Rightarrow> Inr s')"

text \<open>
  How a thread's loop stands: it returned, an exception left it (the thread is dead), or it
  is still looping when the inputs given to the model are used up.
\<close>

datatype thread_end = Returned | Died exc | Looping

text \<open>The \<open>for\<close> loop over one batch of \<open>sdl2.ext.get_events()\<close>.\<close>

fun receive_events :: "event list \<Rightarrow> controller \<Rightarrow> exc option \<times> controller" where
  "receive_events [] s = (None, s)"
| "receive_events (ev # evs) s =
     (case handle_event ev s of
        Inl e \<Rightarrow> (Some e, s)
      | Inr s' \<Rightarrow> receive_events evs s')"

text \<open>\<open>_receive_command_loop\<close>, one batch of events for each turn of the \<open>while\<close>.\<close>

fun receive_command_loop :: "event list list \<Rightarrow> controller \<Rightarrow> thread_end \<times> controller" where
  "receive_command_loop [] s = (if running s then Looping else Returned, s)"
| "receive_command_loop (b # bs) s =
     (if running s then
        (case receive_events b s of
           (Some e, s') \<Rightarrow> (Died e, s')
         | (None, s') \<Rightarrow> receive_command_loop bs s')
      else (Returned, s))"

section \<open>The sending loop\<close>

text \<open>
  What \<open>sr1\<close> returns: \<open>None\<close> when no reply came within the timeout of 0.2 s, else the
  reply packet. Of the packet only its \<open>Raw\<close> layer matters, which it may lack;
  \<open>pkt[Raw]\<close> raises \<open>IndexError\<close> then.
\<close>

datatype packet = Packet "bytes option"

type_synonym answer = "packet option"

definition packet_Raw_load :: "packet \<Rightarrow> exc + bytes" where
  "packet_Raw_load p = (case p of Packet None \<Rightarrow> Inl IndexError | Packet (Some b) \<Rightarrow> Inr b)"

text \<open>\<open>answer[Raw].load.decode()\<close>; subscripting \<open>None\<close> raises \<open>TypeError\<close>.\<close>

definition answer_response :: "answer \<Rightarrow> exc + string" where
  "answer_response a =
     (case a of
        None \<Rightarrow> Inl TypeError
      | Some p \<Rightarrow> try_bind (packet_Raw_load p) bytes_decode)"

text \<open>The outer handler of \<open>_send_command_loop\<close>: \<open>except IndexError\<close>, sleep 0.5 s.\<close>

definition except_IndexError :: "exc \<Rightarrow> controller \<Rightarrow> exc option \<times> controller" where
  "except_IndexError e s = (if e = IndexError then (None, time_sleep 500 s) else (Some e, s))"

text \<open>
  One turn of the \<open>while\<close> in \<open>_send_command_loop\<close>; \<open>ans\<close> is what \<open>sr1\<close> returns if this
  turn calls it. The result is the exception that leaves the loop, if any, and the state.
\<close>

definition send_iteration :: "answer \<Rightarrow> controller \<Rightarrow> exc option \<times> controller" where
  "send_iteration ans s =
     (case deque_pop (command_queue s) of
        Inl e \<Rightarrow> except_IndexError e s
      | Inr (cmd, q) \<Rightarrow>
          (let s1 = s\<lparr>command_queue := q, trace := trace s @ [Sent cmd]\<rparr>
           in case answer_response ans of
                Inr response \<Rightarrow> (None, py_print (''EXE '' @ cmd @ '': '' @ response) s1)
              | Inl e \<Rightarrow>
                  if e = TypeError then (None, py_print (''EXE '' @ cmd @ '': unknown'') s1)
                  else except_IndexError e s1))"

text \<open>\<open>_send_command_loop\<close>, one answer of the network for each turn of the \<open>while\<close>.\<close>

fun send_command_loop :: "answer list \<Rightarrow> controller \<Rightarrow> thread_end \<times> controller" where
  "send_command_loop [] s = (if running s then Looping else Returned, s)"
| "send_command_loop (ans # rest) s =
     (if running s then
        (case send_iteration ans s of
           (Some e, s') \<Rightarrow> (Died e, s')
         | (None, s') \<Rightarrow> send_command_loop rest s')
      else (Returned, s))"

section \<open>The main thread\<close>

text \<open>\<open>_run_loop\<close> sleeps until \<open>KeyboardInterrupt\<close>, whose handler clears the flag.\<close>

definition run_loop :: "controller \<Rightarrow> controller" where
  "run_loop s = s\<lparr>running := False\<rparr>"

text \<open>What \<open>run\<close> does in the main thread between starting the threads and joining them.\<close>

definition run_main :: "controller \<Rightarrow> controller" where
  "run_main s =
     (let s1 = run_loop s;
          s2 = s1\<lparr>command_queue := deque_clear (command_queue s1)\<rparr>
      in land False s2)"

section \<open>The range of the axis state\<close>

text \<open>Every value of the axis state is a percentage from -100 to 100.\<close>

definition axis_ok :: "axis_state \<Rightarrow> bool" where
  "axis_ok a =
     (- 100 \<le> roll a \<and> roll a \<le> 100 \<and> - 100 \<le> quota a \<and> quota a \<le> 100
      \<and> - 100 \<le> yaw a \<and> yaw a \<le> 100 \<and> - 100 \<le> pitch a \<and> pitch a \<le> 100)"

text \<open>The text of the \<open>rc\<close> command for an axis state, as \<open>_dispatch_axis_update\<close> writes it.\<close>

abbreviation rc_line :: "axis_state \<Rightarrow> string" where
  "rc_line a \<equiv>
     ''rc '' @ str_int (roll a) @ '' '' @ str_int (pitch a) @ '' ''
       @ str_int (quota a) @ '' '' @ str_int (yaw a)"

section \<open>Facts about the Python values\<close>

lemmas action_defs = takeoff_def land_def command_def emergency_land_def py_print_def
  deque_append_def deque_clear_def

lemmas receive_defs = handle_event_def dispatch_event_def try_bind_def tuple_get_def
  button_map_def axis_map_def event_map_def call0_def call1_def AXIS_DEAD_def

lemmas send_defs = send_iteration_def except_IndexError_def answer_response_def
  packet_Raw_load_def try_bind_def deque_pop_def py_print_def time_sleep_def

lemmas setter_defs = set_roll_def set_pitch_def set_yaw_def set_quota_def
  dispatch_axis_update_def deque_append_def

text \<open>\<open>pop\<close> gives back what the last \<open>append\<close> put in: the deque is used as a stack.\<close>

lemma deque_pop_append: "deque_pop (deque_append q x) = Inr (x, q)"
  by (simp add: deque_pop_def deque_append_def)

text \<open>
  \<open>int(a / 32767)\<close> is the exact quotient rounded towards zero: its floor when it is not
  negative, its ceiling when it is.
\<close>

lemma int_truediv_floor_ceiling:
  "int_truediv a 32767 =
     (if 0 \<le> a then \<lfloor>real_of_int a / 32767\<rfloor> else \<lceil>real_of_int a / 32767\<rceil>)"
proof (cases "0 \<le> a")
  case True
  have "\<lfloor>real_of_int a / real_of_int 32767\<rfloor> = a div 32767"
    by (rule floor_divide_of_int_eq)
  with True show ?thesis
    by (simp add: int_truediv_def)
next
  case False
  have "\<lfloor>real_of_int (- a) / real_of_int 32767\<rfloor> = (- a) div 32767"
    by (rule floor_divide_of_int_eq)
  then have "\<lceil>real_of_int a / 32767\<rceil> = - ((- a) div 32767)"
    by (simp add: ceiling_def)
  with False show ?thesis
    by (simp add: int_truediv_def)
qed

text \<open>A signed 16-bit reading is normalized into the percentages from -100 to 100.\<close>

lemma int_truediv_bound:
  assumes "- 32768 \<le> raw" and "raw \<le> 32767"
  shows "- 100 \<le> int_truediv (raw * 100) AXIS_MAX_VAL
         \<and> int_truediv (raw * 100) AXIS_MAX_VAL \<le> 100"
proof (cases "0 \<le> raw")
  case True
  then have "int_truediv (raw * 100) AXIS_MAX_VAL = (raw * 100) div 32767"
    by (simp add: int_truediv_def AXIS_MAX_VAL_def)
  moreover have "0 \<le> (raw * 100) div 32767"
    using True by (simp add: pos_imp_zdiv_nonneg_iff)
  moreover have "(raw * 100) div 32767 \<le> 100"
    using assms by simp
  ultimately show ?thesis by simp
next
  case False
  then have "int_truediv (raw * 100) AXIS_MAX_VAL = - ((- (raw * 100)) div 32767)"
    by (simp add: int_truediv_def AXIS_MAX_VAL_def)
  moreover have "0 \<le> (- (raw * 100)) div 32767"
    using False by (simp add: pos_imp_zdiv_nonneg_iff)
  moreover have "(- (raw * 100)) div 32767 \<le> 100"
    using assms by simp
  ultimately show ?thesis by simp
qed

subsection \<open>The text of an int and of an rc command\<close>

text \<open>
  The decimal text of an int has no space in it and determines the int, so the text of an
  \<open>rc\<close> command determines the four values it was written from.
\<close>

lemma digit_char_code: "d < 10 \<Longrightarrow> of_char (digit_char d) = (48 + d :: nat)"
proof -
  assume "d < 10"
  then have "d \<in> {0, 1, 2, 3, 4, 5, 6, 7, 8, 9}" by auto
  then show ?thesis by (auto simp: digit_char_def)
qed

lemma digit_char_inj: "a < 10 \<Longrightarrow> b < 10 \<Longrightarrow> digit_char a = digit_char b \<Longrightarrow> a = b"
proof -
  assume a: "a < 10" and b: "b < 10" and e: "digit_char a = digit_char b"
  have "(of_char (digit_char a) :: nat) = of_char (digit_char b)" using e by simp
  then show "a = b" using a b by (simp add: digit_char_code)
qed

lemma digit_char_plain: "d < 10 \<Longrightarrow> digit_char d \<noteq> CHR '' '' \<and> digit_char d \<noteq> CHR ''-''"
proof -
  assume d: "d < 10"
  have "(of_char (digit_char d) :: nat) \<noteq> of_char (CHR '' '')"
    "(of_char (digit_char d) :: nat) \<noteq> of_char (CHR ''-'')"
    using d by (simp_all add: digit_char_code)
  then show ?thesis by auto
qed

lemma str_nat_nonempty: "str_nat n \<noteq> []"
  by (subst str_nat.simps) simp

lemma str_nat_plain: "CHR '' '' \<notin> set (str_nat n) \<and> CHR ''-'' \<notin> set (str_nat n)"
proof (induction n rule: str_nat.induct)
  case (1 n)
  show ?case
  proof (cases "n < 10")
    case True
    then show ?thesis
      using digit_char_plain [of n] by (subst (1 2) str_nat.simps) auto
  next
    case False
    have "n mod 10 < 10" by simp
    then show ?thesis
      using False "1.IH" digit_char_plain [of "n mod 10"]
      by (subst (1 2) str_nat.simps) auto
  qed
qed

lemma str_nat_inj: "str_nat n = str_nat m \<Longrightarrow> n = m"
proof (induction n arbitrary: m rule: str_nat.induct)
  case (1 n)
  show ?case
  proof (cases "n < 10")
    case n: True
    show ?thesis
    proof (cases "m < 10")
      case True
      with n "1.prems" show ?thesis
        by (simp add: str_nat.simps [of n] str_nat.simps [of m] digit_char_inj)
    next
      case False
      with n "1.prems" show ?thesis
        using str_nat_nonempty [of "m div 10"]
        by (simp add: str_nat.simps [of n] str_nat.simps [of m])
    qed
  next
    case n: False
    show ?thesis
    proof (cases "m < 10")
      case True
      with n "1.prems" show ?thesis
        using str_nat_nonempty [of "n div 10"]
        by (simp add: str_nat.simps [of n] str_nat.simps [of m])
    next
      case False
      with n "1.prems" have e: "str_nat (n div 10) = str_nat (m div 10)"
        and d: "digit_char (n mod 10) = digit_char (m mod 10)"
        by (simp_all add: str_nat.simps [of n] str_nat.simps [of m])
      from "1.IH" [OF n e] have "n div 10 = m div 10" .
      moreover have "n mod 10 = m mod 10"
        using d by (intro digit_char_inj) simp_all
      ultimately show ?thesis
        by (metis div_mult_mod_eq)
    qed
  qed
qed

lemma str_int_inj: "str_int i = str_int j \<Longrightarrow> i = j"
proof -
  assume e: "str_int i = str_int j"
  have hd_plain: "\<And>n. hd (str_nat n) \<noteq> CHR ''-''"
    using str_nat_plain str_nat_nonempty by (metis list.set_sel(1))
  show "i = j"
  proof (cases "i < 0")
    case i: True
    show ?thesis
    proof (cases "j < 0")
      case True
      with i e have "str_nat (nat (- i)) = str_nat (nat (- j))" by (simp add: str_int_def)
      then have "nat (- i) = nat (- j)" by (rule str_nat_inj)
      with i True show ?thesis by simp
    next
      case False
      with i e have "CHR ''-'' # str_nat (nat (- i)) = str_nat (nat j)" by (simp add: str_int_def)
      then have "hd (str_nat (nat j)) = CHR ''-''" by (metis list.sel(1))
      with hd_plain show ?thesis by blast
    qed
  next
    case i: False
    show ?thesis
    proof (cases "j < 0")
      case True
      with i e have "str_nat (nat i) = CHR ''-'' # str_nat (nat (- j))" by (simp add: str_int_def)
      then have "hd (str_nat (nat i)) = CHR ''-''" by (metis list.sel(1))
      with hd_plain show ?thesis by blast
    next
      case False
      with i e have "str_nat (nat i) = str_nat (nat j)" by (simp add: str_int_def)
      then have "nat i = nat j" by (rule str_nat_inj)
      with i False show ?thesis by simp
    qed
  qed
qed

lemma str_int_no_space: "CHR '' '' \<notin> set (str_int i)"
  using str_nat_plain by (simp add: str_int_def)

lemma split_at_space:
  assumes "CHR '' '' \<notin> set u" and "CHR '' '' \<notin> set u'"
    and "u @ CHR '' '' # r = u' @ CHR '' '' # r'"
  shows "u = u' \<and> r = r'"
  using assms
proof (induction u arbitrary: u')
  case Nil
  then show ?case by (cases u') auto
next
  case (Cons c u)
  then show ?case by (cases u') auto
qed

lemma rc_line_inj:
  assumes "rc_line a = rc_line b"
  shows "roll a = roll b \<and> pitch a = pitch b \<and> quota a = quota b \<and> yaw a = yaw b"
proof -
  from assms have e1:
    "str_int (roll a) @ CHR '' '' #
       (str_int (pitch a) @ '' '' @ str_int (quota a) @ '' '' @ str_int (yaw a))
     = str_int (roll b) @ CHR '' '' #
       (str_int (pitch b) @ '' '' @ str_int (quota b) @ '' '' @ str_int (yaw b))"
    by simp
  from split_at_space [OF str_int_no_space str_int_no_space e1]
  have r: "str_int (roll a) = str_int (roll b)"
    and e2: "str_int (pitch a) @ CHR '' '' # (str_int (quota a) @ '' '' @ str_int (yaw a))
       = str_int (pitch b) @ CHR '' '' # (str_int (quota b) @ '' '' @ str_int (yaw b))"
    by simp_all
  from split_at_space [OF str_int_no_space str_int_no_space e2]
  have p: "str_int (pitch a) = str_int (pitch b)"
    and e3: "str_int (quota a) @ CHR '' '' # str_int (yaw a)
       = str_int (quota b) @ CHR '' '' # str_int (yaw b)"
    by simp_all
  from split_at_space [OF str_int_no_space str_int_no_space e3]
  have q: "str_int (quota a) = str_int (quota b)" and y: "str_int (yaw a) = str_int (yaw b)"
    by simp_all
  from r p q y show ?thesis by (simp add: str_int_inj)
qed

section \<open>The command queue and the sender\<close>

text \<open>
  Claim C1: commands are sent in the order they were enqueued; each pop returns the
  earliest command still queued. The code at two pending commands: START then SELECT are
  pressed, so \<open>takeoff\<close> is appended before \<open>land\<close>; the sender, whose docstring names an
  FCFS policy, pops from the end it appends to and sends \<open>land\<close> first, \<open>takeoff\<close> second.
\<close>

theorem pop_serves_latest_first:
  "receive_events [JOYBUTTONDOWN 7, JOYBUTTONDOWN 6] init =
     (None, init\<lparr>command_queue := [''takeoff'', ''land''],
                  trace := [Print ''Pressed Takeoff button'', Print ''Pressed Land button'']\<rparr>)
   \<and> send_command_loop [Some (Packet (Some ''ok'')), Some (Packet (Some ''ok''))]
        (init\<lparr>command_queue := [''takeoff'', ''land'']\<rparr>) =
     (Looping, init\<lparr>command_queue := [],
                     trace := [Sent ''land'', Print ''EXE land: ok'',
                               Sent ''takeoff'', Print ''EXE takeoff: ok'']\<rparr>)"
  by (simp add: init_def receive_defs action_defs send_defs bytes_decode_def)

text \<open>
  Claim C2: a reply whose payload cannot be decoded as text is reported as "unknown" and
  the sender goes on. The code at the reply payload \<open>b'\xff'\<close>: \<open>decode()\<close> raises
  \<open>UnicodeDecodeError\<close>, which neither \<open>except TypeError\<close> nor \<open>except IndexError\<close>
  catches. Nothing is printed, the sender thread is dead and \<open>land\<close> stays in the queue.
\<close>

theorem undecodable_reply_kills_sender:
  "send_command_loop [Some (Packet (Some [CHR 0xFF])), Some (Packet (Some ''ok''))]
     (init\<lparr>command_queue := [''land'', ''takeoff'']\<rparr>) =
   (Died UnicodeDecodeError,
    init\<lparr>command_queue := [''land''], trace := [Sent ''takeoff'']\<rparr>)"
  by (simp add: init_def send_defs bytes_decode_def)

text \<open>
  Claim C4, as the code has it: when no reply arrives within the timeout, the command has
  been removed from the queue and sent once, the line printed is the one of the "unknown"
  outcome, \<open>EXE <cmd>: unknown\<close>, and the loop goes on with the commands that are left.
\<close>

theorem no_reply_reported_unknown:
  assumes "running s" and "command_queue s = q @ [cmd]"
  shows "send_iteration None s =
           (None, s\<lparr>command_queue := q,
                     trace := trace s @ [Sent cmd, Print (''EXE '' @ cmd @ '': unknown'')]\<rparr>)
         \<and> send_command_loop (None # rest) s =
           send_command_loop rest
             (s\<lparr>command_queue := q,
                 trace := trace s @ [Sent cmd, Print (''EXE '' @ cmd @ '': unknown'')]\<rparr>)"
  using assms by (simp add: send_defs)

theorem no_reply_reported_unknown_witness:
  "send_command_loop [None, None] (init\<lparr>command_queue := [''takeoff'', ''land'']\<rparr>) =
     (Looping, init\<lparr>command_queue := [],
                     trace := [Sent ''land'', Print ''EXE land: unknown'',
                               Sent ''takeoff'', Print ''EXE takeoff: unknown'']\<rparr>)"
proof -
  have r: "running (init\<lparr>command_queue := [''takeoff'', ''land'']\<rparr>)"
    by (simp add: init_def)
  have q: "command_queue (init\<lparr>command_queue := [''takeoff'', ''land'']\<rparr>)
           = [''takeoff''] @ [''land'']"
    by simp
  show ?thesis
    using no_reply_reported_unknown [OF r q, of "[None]"]
    by (simp add: init_def send_defs)
qed

text \<open>
  Claim C4 as stated fails: the sender has no timeout outcome. With \<open>land\<close> queued and no
  reply, it prints \<open>EXE land: unknown\<close>, and all it does is what it does for a reply whose
  text is \<open>unknown\<close>.
\<close>

theorem timeout_not_told_apart:
  "send_iteration None (init\<lparr>command_queue := [''land'']\<rparr>) =
     (None, init\<lparr>command_queue := [], trace := [Sent ''land'', Print ''EXE land: unknown'']\<rparr>)
   \<and> send_iteration None (init\<lparr>command_queue := [''land'']\<rparr>) =
     send_iteration (Some (Packet (Some ''unknown''))) (init\<lparr>command_queue := [''land'']\<rparr>)"
  by (simp add: init_def send_defs bytes_decode_def)

text \<open>
  Claim C10: a reply packet with no \<open>Raw\<close> layer makes \<open>answer[Raw]\<close> raise \<open>IndexError\<close>,
  which the handler for the empty queue catches. The command is gone from the queue and
  was sent, no line is printed for it (neither a reply text nor "unknown"), the sender
  sleeps 0.5 s as it does on an empty queue, and the loop goes on. The loop itself is
  run: with one such reply it has popped and sent the command and slept, and is still
  looping; with a second reply \<open>ok\<close> it has gone on to the next command; and from the
  initial state with \<open>takeoff\<close> and \<open>land\<close> queued it sends \<open>land\<close>, sleeps, sends
  \<open>takeoff\<close>, prints its reply, and sleeps on the empty queue.
\<close>

theorem missing_Raw_layer_backs_off:
  "send_iteration (Some (Packet None)) (s\<lparr>command_queue := q @ [cmd]\<rparr>) =
     (None, s\<lparr>command_queue := q, trace := trace s @ [Sent cmd, Sleep 500]\<rparr>)
   \<and> send_iteration ans (s\<lparr>command_queue := []\<rparr>) =
     (None, s\<lparr>command_queue := [], trace := trace s @ [Sleep 500]\<rparr>)
   \<and> send_command_loop (Some (Packet None) # rest)
       (s\<lparr>running := True, command_queue := q @ [cmd]\<rparr>) =
     send_command_loop rest
       (s\<lparr>running := True, command_queue := q, trace := trace s @ [Sent cmd, Sleep 500]\<rparr>)
   \<and> send_command_loop [Some (Packet None)]
       (s\<lparr>running := True, command_queue := q @ [cmd]\<rparr>) =
     (Looping,
      s\<lparr>running := True, command_queue := q, trace := trace s @ [Sent cmd, Sleep 500]\<rparr>)
   \<and> send_command_loop [Some (Packet None), Some (Packet (Some ''ok''))]
       (s\<lparr>running := True, command_queue := q @ [cmd2, cmd]\<rparr>) =
     (Looping,
      s\<lparr>running := True, command_queue := q,
        trace := trace s @ [Sent cmd, Sleep 500, Sent cmd2, Print (''EXE '' @ cmd2 @ '': ok'')]\<rparr>)
   \<and> send_command_loop [Some (Packet None), Some (Packet (Some ''ok'')), None]
       (init\<lparr>command_queue := [''takeoff'', ''land'']\<rparr>) =
     (Looping,
      init\<lparr>command_queue := [],
           trace := [Sent ''land'', Sleep 500, Sent ''takeoff'', Print ''EXE takeoff: ok'',
                     Sleep 500]\<rparr>)"
proof -
  have ok: "bytes_decode ''ok'' = Inr ''ok''"
    by (simp add: bytes_decode_def)
  have two: "butlast (q @ [cmd2, cmd]) = q @ [cmd2]"
    by (simp add: butlast_append)
  show ?thesis
    by (simp add: init_def send_defs ok two)
qed

section \<open>The dispatcher\<close>

text \<open>
  Claim C3: an event whose button or axis index is out of range is ignored and the loop
  goes on. The code at button index 10 and at axis index 6 (value 30000): the tuple lookup
  raises \<open>IndexError\<close>, the loop catches \<open>KeyError\<close> only, and the receiving thread is dead
  before the START press that follows is read. An index in range with no action bound
  (button 1, \<open>B\<close>; axis 2, \<open>LT\<close>) is ignored, as the handler intends.
\<close>

theorem out_of_range_index_kills_receiver:
  "receive_command_loop [[JOYBUTTONDOWN 10, JOYBUTTONDOWN 7], [JOYBUTTONDOWN 7]] init =
     (Died IndexError, init)
   \<and> receive_command_loop [[JOYAXISMOTION 6 30000, JOYBUTTONDOWN 7], [JOYBUTTONDOWN 7]] init =
     (Died IndexError, init)
   \<and> receive_command_loop [[JOYBUTTONDOWN 1, JOYAXISMOTION 2 30000, JOYBUTTONDOWN 7]] init =
     (Looping, takeoff init)"
  by (simp add: init_def receive_defs action_defs)

text \<open>
  Claim C8: an axis-motion event whose raw value is at most 2500 in absolute value has no
  effect: no command is enqueued, the axis state is not changed, nothing is raised,
  whatever the axis index is.
\<close>

theorem dead_zone_event_no_effect:
  assumes "\<bar>sint v\<bar> \<le> 2500"
  shows "handle_event (JOYAXISMOTION a v) s = Inr s
         \<and> receive_events [JOYAXISMOTION a v] s = (None, s)"
  using assms by (simp add: handle_event_def dispatch_event_def AXIS_DEAD_def)

theorem dead_zone_event_no_effect_witness:
  "handle_event (JOYAXISMOTION 0 2500) init = Inr init
   \<and> receive_events [JOYAXISMOTION 0 2500] init = (None, init)
   \<and> handle_event (JOYAXISMOTION 9 (- 2500)) init = Inr init"
proof -
  have a: "\<bar>sint (2500 :: 16 word)\<bar> \<le> 2500" by simp
  have b: "\<bar>sint (- 2500 :: 16 word)\<bar> \<le> 2500" by simp
  show ?thesis
    using dead_zone_event_no_effect [OF a, of 0 init]
      dead_zone_event_no_effect [OF b, of 9 init]
    by simp
qed

section \<open>The axis mapper\<close>

text \<open>
  What an axis-motion event above the dead zone calls, and what each setter does to the
  axis state and to the queue.
\<close>

lemma handle_axis_event:
  assumes "2500 < \<bar>sint v\<bar>"
  shows "handle_event (JOYAXISMOTION 0 v) s = Inr (set_roll (sint v) s)"
    and "handle_event (JOYAXISMOTION 1 v) s = Inr (set_pitch (sint v) s)"
    and "handle_event (JOYAXISMOTION 3 v) s = Inr (set_yaw (sint v) s)"
    and "handle_event (JOYAXISMOTION 4 v) s = Inr (set_quota (sint v) s)"
  using assms by (simp_all add: receive_defs)

lemma setter_axis_state:
  "axis_state (set_roll raw s) = (axis_state s)\<lparr>roll := int_truediv (raw * 100) AXIS_MAX_VAL\<rparr>"
  "axis_state (set_pitch raw s) = (axis_state s)\<lparr>pitch := - int_truediv (raw * 100) AXIS_MAX_VAL\<rparr>"
  "axis_state (set_yaw raw s) = (axis_state s)\<lparr>yaw := int_truediv (raw * 100) AXIS_MAX_VAL\<rparr>"
  "axis_state (set_quota raw s) = (axis_state s)\<lparr>quota := - int_truediv (raw * 100) AXIS_MAX_VAL\<rparr>"
  by (simp_all add: setter_defs Let_def)

lemma setter_queue:
  "command_queue (set_roll raw s) =
     (if roll (axis_state s) \<noteq> int_truediv (raw * 100) AXIS_MAX_VAL
      then command_queue s @ [rc_line (axis_state (set_roll raw s))] else command_queue s)"
  "command_queue (set_pitch raw s) =
     (if pitch (axis_state s) \<noteq> - int_truediv (raw * 100) AXIS_MAX_VAL
      then command_queue s @ [rc_line (axis_state (set_pitch raw s))] else command_queue s)"
  "command_queue (set_yaw raw s) =
     (if yaw (axis_state s) \<noteq> int_truediv (raw * 100) AXIS_MAX_VAL
      then command_queue s @ [rc_line (axis_state (set_yaw raw s))] else command_queue s)"
  "command_queue (set_quota raw s) =
     (if quota (axis_state s) \<noteq> - int_truediv (raw * 100) AXIS_MAX_VAL
      then command_queue s @ [rc_line (axis_state (set_quota raw s))] else command_queue s)"
  by (simp_all add: setter_defs Let_def)

text \<open>
  Claim C5, as the code has it: for an axis update whose raw value exceeds the dead zone,
  the value stored for the axis is raw * 100 / 32767 rounded towards zero (the floor of a
  quotient that is not negative, the ceiling of a negative one), with the sign inverted
  for the pitch and quota axes.
\<close>

theorem axis_update_truncates:
  assumes "2500 < \<bar>sint v\<bar>"
  shows "handle_event (JOYAXISMOTION 0 v) s = Inr (set_roll (sint v) s)
    \<and> roll (axis_state (set_roll (sint v) s)) =
        (if 0 \<le> sint v then \<lfloor>real_of_int (sint v * 100) / 32767\<rfloor>
         else \<lceil>real_of_int (sint v * 100) / 32767\<rceil>)
    \<and> handle_event (JOYAXISMOTION 1 v) s = Inr (set_pitch (sint v) s)
    \<and> pitch (axis_state (set_pitch (sint v) s)) =
        - (if 0 \<le> sint v then \<lfloor>real_of_int (sint v * 100) / 32767\<rfloor>
           else \<lceil>real_of_int (sint v * 100) / 32767\<rceil>)
    \<and> handle_event (JOYAXISMOTION 3 v) s = Inr (set_yaw (sint v) s)
    \<and> yaw (axis_state (set_yaw (sint v) s)) =
        (if 0 \<le> sint v then \<lfloor>real_of_int (sint v * 100) / 32767\<rfloor>
         else \<lceil>real_of_int (sint v * 100) / 32767\<rceil>)
    \<and> handle_event (JOYAXISMOTION 4 v) s = Inr (set_quota (sint v) s)
    \<and> quota (axis_state (set_quota (sint v) s)) =
        - (if 0 \<le> sint v then \<lfloor>real_of_int (sint v * 100) / 32767\<rfloor>
           else \<lceil>real_of_int (sint v * 100) / 32767\<rceil>)"
proof -
  have t: "int_truediv (sint v * 100) AXIS_MAX_VAL =
      (if 0 \<le> sint v then \<lfloor>real_of_int (sint v * 100) / 32767\<rfloor>
       else \<lceil>real_of_int (sint v * 100) / 32767\<rceil>)"
    using int_truediv_floor_ceiling [of "sint v * 100"] by (simp add: AXIS_MAX_VAL_def)
  show ?thesis
    unfolding handle_axis_event [OF assms] setter_axis_state t by simp
qed

theorem axis_update_truncates_witness:
  "roll (axis_state (set_roll (sint (16383 :: 16 word)) init)) = 49
   \<and> quota (axis_state (set_quota (sint (- 32768 :: 16 word)) init)) = 100
   \<and> pitch (axis_state (set_pitch (sint (16383 :: 16 word)) init)) = - 49"
proof -
  have a: "2500 < \<bar>sint (16383 :: 16 word)\<bar>" by simp
  have b: "2500 < \<bar>sint (- 32768 :: 16 word)\<bar>" by simp
  show ?thesis
    using axis_update_truncates [OF a, of init] axis_update_truncates [OF b, of init]
    by simp
qed

text \<open>
  Claim C5 as stated fails: the value is not round(raw * 100 / 32767). A raw value of
  16383 on LEFT_X stores 49 and enqueues \<open>rc 49 0 0 0\<close>, while 1638300 / 32767 rounds
  to 50.
\<close>

theorem normalized_value_not_rounded:
  "handle_event (JOYAXISMOTION 0 16383) init =
     Inr (init\<lparr>command_queue := [''rc 49 0 0 0''],
               axis_state := \<lparr>roll = 49, quota = 0, yaw = 0, pitch = 0\<rparr>\<rparr>)
   \<and> round (16383 * 100 / 32767 :: real) = 50"
  by (simp add: init_def receive_defs setter_defs int_truediv_def AXIS_MAX_VAL_def
      str_int_def str_nat.simps digit_char_def round_def)

text \<open>
  Claim C6: in every state, so after every sequence of axis updates, a setter appends an
  \<open>rc\<close> command if and only if the newly normalized value differs from the one stored
  for its axis; it then stores the value, leaves the other three axes as they are, and
  the command appended is the \<open>rc\<close> text of the new state's roll, pitch, quota and yaw.
  That text determines all four values. When the value is the stored one, the queue is
  left as it is.
\<close>

theorem rc_emitted_iff_changed:
  "(command_queue (set_roll raw s) \<noteq> command_queue s)
     = (roll (axis_state s) \<noteq> int_truediv (raw * 100) AXIS_MAX_VAL)
   \<and> (command_queue (set_pitch raw s) \<noteq> command_queue s)
     = (pitch (axis_state s) \<noteq> - int_truediv (raw * 100) AXIS_MAX_VAL)
   \<and> (command_queue (set_yaw raw s) \<noteq> command_queue s)
     = (yaw (axis_state s) \<noteq> int_truediv (raw * 100) AXIS_MAX_VAL)
   \<and> (command_queue (set_quota raw s) \<noteq> command_queue s)
     = (quota (axis_state s) \<noteq> - int_truediv (raw * 100) AXIS_MAX_VAL)
   \<and> command_queue (set_roll raw s) =
       (if roll (axis_state s) \<noteq> int_truediv (raw * 100) AXIS_MAX_VAL
        then command_queue s @ [rc_line (axis_state (set_roll raw s))] else command_queue s)
   \<and> command_queue (set_pitch raw s) =
       (if pitch (axis_state s) \<noteq> - int_truediv (raw * 100) AXIS_MAX_VAL
        then command_queue s @ [rc_line (axis_state (set_pitch raw s))] else command_queue s)
   \<and> command_queue (set_yaw raw s) =
       (if yaw (axis_state s) \<noteq> int_truediv (raw * 100) AXIS_MAX_VAL
        then command_queue s @ [rc_line (axis_state (set_yaw raw s))] else command_queue s)
   \<and> command_queue (set_quota raw s) =
       (if quota (axis_state s) \<noteq> - int_truediv (raw * 100) AXIS_MAX_VAL
        then command_queue s @ [rc_line (axis_state (set_quota raw s))] else command_queue s)
   \<and> axis_state (set_roll raw s) =
       (axis_state s)\<lparr>roll := int_truediv (raw * 100) AXIS_MAX_VAL\<rparr>
   \<and> axis_state (set_pitch raw s) =
       (axis_state s)\<lparr>pitch := - int_truediv (raw * 100) AXIS_MAX_VAL\<rparr>
   \<and> axis_state (set_yaw raw s) =
       (axis_state s)\<lparr>yaw := int_truediv (raw * 100) AXIS_MAX_VAL\<rparr>
   \<and> axis_state (set_quota raw s) =
       (axis_state s)\<lparr>quota := - int_truediv (raw * 100) AXIS_MAX_VAL\<rparr>
   \<and> (\<forall>a b. rc_line a = rc_line b \<longrightarrow>
         roll a = roll b \<and> pitch a = pitch b \<and> quota a = quota b \<and> yaw a = yaw b)"
proof -
  have inj: "\<forall>a b. rc_line a = rc_line b \<longrightarrow>
         roll a = roll b \<and> pitch a = pitch b \<and> quota a = quota b \<and> yaw a = yaw b"
    using rc_line_inj by blast
  have changed:
    "(command_queue (set_roll raw s) \<noteq> command_queue s)
       = (roll (axis_state s) \<noteq> int_truediv (raw * 100) AXIS_MAX_VAL)"
    "(command_queue (set_pitch raw s) \<noteq> command_queue s)
       = (pitch (axis_state s) \<noteq> - int_truediv (raw * 100) AXIS_MAX_VAL)"
    "(command_queue (set_yaw raw s) \<noteq> command_queue s)
       = (yaw (axis_state s) \<noteq> int_truediv (raw * 100) AXIS_MAX_VAL)"
    "(command_queue (set_quota raw s) \<noteq> command_queue s)
       = (quota (axis_state s) \<noteq> - int_truediv (raw * 100) AXIS_MAX_VAL)"
    by (simp_all add: setter_queue)
  show ?thesis
    using inj changed setter_queue [of raw s] setter_axis_state [of raw s] by blast
qed

theorem rc_emitted_iff_changed_witness:
  "command_queue (set_roll 16383 init) = [''rc 49 0 0 0'']
   \<and> command_queue (set_roll 16383 (set_roll 16383 init)) = [''rc 49 0 0 0'']
   \<and> command_queue (set_pitch (- 32768) (set_roll 16383 init))
       = [''rc 49 0 0 0'', ''rc 49 100 0 0'']"
proof -
  have i: "axis_state init = \<lparr>roll = 0, quota = 0, yaw = 0, pitch = 0\<rparr>"
    "command_queue init = []"
    by (simp_all add: init_def)
  have v: "int_truediv 1638300 AXIS_MAX_VAL = 49"
    "int_truediv (- 3276800) AXIS_MAX_VAL = - 100"
    by (simp_all add: int_truediv_def AXIS_MAX_VAL_def)
  have t: "str_int 49 = ''49''" "str_int 0 = ''0''" "str_int 100 = ''100''"
    by (simp_all add: str_int_def str_nat.simps digit_char_def)
  have a: "command_queue (set_roll 16383 init) = [''rc 49 0 0 0'']"
    and b: "axis_state (set_roll 16383 init) = \<lparr>roll = 49, quota = 0, yaw = 0, pitch = 0\<rparr>"
    using rc_emitted_iff_changed [of 16383 init] by (simp_all add: i v t)
  have c: "command_queue (set_roll 16383 (set_roll 16383 init)) = [''rc 49 0 0 0'']"
    using rc_emitted_iff_changed [of 16383 "set_roll 16383 init"] by (simp add: a b v)
  have d: "command_queue (set_pitch (- 32768) (set_roll 16383 init))
       = [''rc 49 0 0 0'', ''rc 49 100 0 0'']"
    using rc_emitted_iff_changed [of "- 32768" "set_roll 16383 init"] by (simp add: a b v t)
  from a c d show ?thesis by simp
qed

text \<open>
  The actions of the buttons do not touch the axis state, and the setters keep it in
  range for every signed 16-bit reading; so do an event, a batch of events and the whole
  receiving loop.
\<close>

lemma action_axis_state:
  "axis_state (land force s) = axis_state s"
  "axis_state (takeoff s) = axis_state s"
  "axis_state (emergency_land s) = axis_state s"
  "axis_state (command s) = axis_state s"
  by (simp_all add: action_defs Let_def)

lemma setter_axis_ok:
  assumes "- 32768 \<le> raw" and "raw \<le> 32767" and "axis_ok (axis_state s)"
  shows "axis_ok (axis_state (set_roll raw s))"
    and "axis_ok (axis_state (set_pitch raw s))"
    and "axis_ok (axis_state (set_yaw raw s))"
    and "axis_ok (axis_state (set_quota raw s))"
  using int_truediv_bound [OF assms(1,2)] assms(3)
  by (simp_all add: setter_axis_state axis_ok_def)

lemma call0_axis_state: "call0 h s = Inr s' \<Longrightarrow> axis_state s' = axis_state s"
  by (cases h) (auto simp: call0_def action_axis_state)

lemma call1_axis_ok:
  assumes "call1 h raw s = Inr s'" and "- 32768 \<le> raw" and "raw \<le> 32767"
    and "axis_ok (axis_state s)"
  shows "axis_ok (axis_state s')"
  using assms setter_axis_ok [OF assms(2,3,4)]
  by (cases h) (auto simp: call1_def action_axis_state)

lemma sint16_range: "- 32768 \<le> sint (v :: 16 word) \<and> sint v \<le> 32767"
  using sint_ge [of v] sint_lt [of v] by simp

lemma handle_event_axis_ok:
  assumes "handle_event ev s = Inr s'" and "axis_ok (axis_state s)"
  shows "axis_ok (axis_state s')"
proof (cases ev)
  case (JOYBUTTONDOWN b)
  with assms show ?thesis
    by (auto simp: handle_event_def dispatch_event_def try_bind_def
        split: sum.splits if_splits dest: call0_axis_state)
next
  case (JOYAXISMOTION a v)
  with assms sint16_range [of v] show ?thesis
    by (auto simp: handle_event_def dispatch_event_def try_bind_def
        split: sum.splits if_splits dest: call1_axis_ok)
next
  case OTHER_EVENT
  with assms show ?thesis
    by (simp add: handle_event_def dispatch_event_def)
qed

lemma receive_events_axis_ok:
  "axis_ok (axis_state s) \<Longrightarrow> axis_ok (axis_state (snd (receive_events evs s)))"
proof (induction evs arbitrary: s)
  case Nil
  then show ?case by simp
next
  case (Cons ev evs)
  show ?case
  proof (cases "handle_event ev s")
    case (Inl e)
    with Cons.prems show ?thesis by simp
  next
    case (Inr s')
    with Cons.prems have "axis_ok (axis_state s')" by (rule handle_event_axis_ok [rotated -1])
    with Inr Cons.IH show ?thesis by simp
  qed
qed

lemma receive_command_loop_axis_ok:
  "axis_ok (axis_state s) \<Longrightarrow> axis_ok (axis_state (snd (receive_command_loop batches s)))"
proof (induction batches arbitrary: s)
  case Nil
  then show ?case by simp
next
  case (Cons b batches)
  from Cons.prems have "axis_ok (axis_state (snd (receive_events b s)))"
    by (rule receive_events_axis_ok)
  with Cons show ?case
    by (cases "receive_events b s") (auto split: option.splits)
qed

text \<open>
  Claim C9: every value of the axis state is an integer from -100 to 100. The state that
  \<open>__init__\<close> builds is all zeros; every setter keeps the range for a raw value from
  -32768 to 32767, the extreme -32768 on the sign-inverted axes included; and whatever
  events the receiving loop reads from the initial state, the axis state is in range.
\<close>

theorem axis_state_stays_in_range:
  "axis_ok (axis_state init)
   \<and> (\<forall>raw s. - 32768 \<le> raw \<and> raw \<le> 32767 \<and> axis_ok (axis_state s) \<longrightarrow>
         axis_ok (axis_state (set_roll raw s)) \<and> axis_ok (axis_state (set_pitch raw s))
         \<and> axis_ok (axis_state (set_yaw raw s)) \<and> axis_ok (axis_state (set_quota raw s)))
   \<and> (\<forall>batches. axis_ok (axis_state (snd (receive_command_loop batches init))))"
proof -
  have i: "axis_ok (axis_state init)"
    by (simp add: init_def axis_ok_def)
  moreover have "\<forall>batches. axis_ok (axis_state (snd (receive_command_loop batches init)))"
    using i by (simp add: receive_command_loop_axis_ok)
  ultimately show ?thesis
    using setter_axis_ok by blast
qed

theorem axis_state_stays_in_range_witness:
  "axis_ok (axis_state (set_quota (- 32768) init))
   \<and> quota (axis_state (set_quota (- 32768) init)) = 100
   \<and> axis_ok (axis_state (set_pitch (- 32768) init))
   \<and> pitch (axis_state (set_pitch (- 32768) init)) = 100
   \<and> axis_ok (axis_state (snd (receive_command_loop
        [[JOYAXISMOTION 4 (- 32768), JOYAXISMOTION 1 (- 32768)]] init)))"
proof -
  have v: "int_truediv (- 3276800) AXIS_MAX_VAL = - 100"
    by (simp add: int_truediv_def AXIS_MAX_VAL_def)
  have r: "(- 32768 :: int) \<le> - 32768" "(- 32768 :: int) \<le> 32767"
    by simp_all
  have a: "axis_ok (axis_state (set_quota (- 32768) init))
           \<and> axis_ok (axis_state (set_pitch (- 32768) init))"
    using axis_state_stays_in_range r by blast
  have b: "axis_ok (axis_state (snd (receive_command_loop
        [[JOYAXISMOTION 4 (- 32768), JOYAXISMOTION 1 (- 32768)]] init)))"
    using axis_state_stays_in_range by blast
  have c: "quota (axis_state (set_quota (- 32768) init)) = 100"
    "pitch (axis_state (set_pitch (- 32768) init)) = 100"
    by (simp_all add: setter_axis_state v)
  from a b c show ?thesis by simp
qed

section \<open>Shutdown\<close>

text \<open>
  Claim C7: when the supervisory loop ends, the queue is cleared and a landing command is
  enqueued, and a final landing command is always attempted before the process exits. The
  code after \<open>KeyboardInterrupt\<close>: the queue is exactly \<open>land\<close>, but \<open>_running\<close> is already
  False, so a sender that is at the head of its loop (as it is after a backoff sleep or a
  finished exchange) returns without a pop: nothing is sent and \<open>land\<close> is still queued
  when the threads are joined.
\<close>

theorem shutdown_landing_never_sent:
  "command_queue (run_main s) = [''land'']
   \<and> send_command_loop answers (run_main s) = (Returned, run_main s)"
  by (cases answers) (simp_all add: run_main_def run_loop_def action_defs)

end
